theory Spec2Isabelle
  imports Main
begin

section \<open>Values of the Go runtime and standard library\<close>

text \<open>
  The SDK is written in Go. A Go \<^verbatim>\<open>string\<close> is a byte sequence and is modelled as
  \<^typ>\<open>string\<close>; a Go \<^verbatim>\<open>int\<close> that is only compared (an HTTP status, a page number) is
  modelled as \<^typ>\<open>int\<close>. A Go map is a partial function, and a map variable that may
  be \<^verbatim>\<open>nil\<close> is an \<^typ>\<open>'a option\<close> of one: \<^verbatim>\<open>nil\<close> is \<^term>\<open>None\<close>, an allocated map
  (also an empty one) is \<^term>\<open>Some m\<close>. An \<^verbatim>\<open>error\<close> of the standard library is
  represented by the text its \<^verbatim>\<open>Error()\<close> method returns, which is what \<^verbatim>\<open>%v\<close> prints.
\<close>

type_synonym go_error = string

text \<open>
  The values that \<^verbatim>\<open>encoding/json\<close> stores into an \<^verbatim>\<open>any\<close>: \<^verbatim>\<open>nil\<close>, \<^verbatim>\<open>bool\<close>,
  \<^verbatim>\<open>float64\<close>, \<^verbatim>\<open>string\<close>, \<^verbatim>\<open>[]any\<close> and \<^verbatim>\<open>map[string]any\<close>. The type \<^verbatim>\<open>float64\<close> is
  the parameter \<open>'n\<close>: the code below never inspects a number.
\<close>

datatype 'n json =
    JNull
  | JBool bool
  | JNumber 'n
  | JString string
  | JArray "'n json list"
  | JObject "string \<Rightarrow> 'n json option"

type_synonym 'n json_map = "string \<Rightarrow> 'n json option"

text \<open>
  \<^verbatim>\<open>json.Unmarshal(bodyBytes, &jsonBody)\<close> with \<^verbatim>\<open>var jsonBody map[string]any\<close>.
  The package is not part of the repository. Its grammar is the parameter \<open>parse\<close>:
  \<^term>\<open>None\<close> when the package rejects the text (it is not valid JSON, or holds a
  number that no \<^verbatim>\<open>float64\<close> represents), otherwise the value that the text denotes.
  What the package does with that value and a \<^verbatim>\<open>nil\<close> map as target is written out from
  its documentation: an object allocates the map, the literal \<^verbatim>\<open>null\<close> leaves the map
  \<^verbatim>\<open>nil\<close> and is no error, every other value is an \<^verbatim>\<open>UnmarshalTypeError\<close> and leaves
  the map \<^verbatim>\<open>nil\<close>. The result is the pair of the returned error and the map left in
  the variable; which error it is does not matter to the caller, which only tests
  \<^verbatim>\<open>err != nil\<close>.
\<close>

datatype unmarshal_error = SyntaxError | UnmarshalTypeError

definition json_Unmarshal ::
  "(string \<Rightarrow> 'n json option) \<Rightarrow> string \<Rightarrow> unmarshal_error option \<times> 'n json_map option" where
  "json_Unmarshal parse bodyBytes =
     (case parse bodyBytes of
        None \<Rightarrow> (Some SyntaxError, None)
      | Some (JObject m) \<Rightarrow> (None, Some m)
      | Some JNull \<Rightarrow> (None, None)
      | Some _ \<Rightarrow> (Some UnmarshalTypeError, None))"

section \<open>errors.go\<close>

text \<open>
  \<^verbatim>\<open>ErrorParams\<close> and \<^verbatim>\<open>PaylioError\<close> are two structs with the same six fields, so one
  record serves for both; \<open>newPaylioError\<close> copies field by field as the source does.
  The zero value of the record is what a composite literal leaves in the fields it
  does not mention.
\<close>

record 'n ErrorParams =
  Message :: string
  HTTPStatus :: int
  HTTPBody :: string
  JSONBody :: "'n json_map option"
  Headers :: "(string \<Rightarrow> string option) option"
  Code :: string

type_synonym 'n PaylioError = "'n ErrorParams"

definition newPaylioError :: "'n ErrorParams \<Rightarrow> 'n PaylioError" where
  "newPaylioError p =
     \<lparr>Message = Message p, HTTPStatus = HTTPStatus p, HTTPBody = HTTPBody p,
      JSONBody = JSONBody p, Headers = Headers p, Code = Code p\<rparr>"

text \<open>
  The six error types each embed a \<^verbatim>\<open>*PaylioError\<close>; an \<^verbatim>\<open>error\<close> returned by the
  transport is one of them. \<open>Unwrap\<close> gives the embedded record.
\<close>

datatype 'n paylio_error =
    APIError "'n PaylioError"
  | AuthenticationError "'n PaylioError"
  | InvalidRequestError "'n PaylioError"
  | NotFoundError "'n PaylioError"
  | RateLimitError "'n PaylioError"
  | APIConnectionError "'n PaylioError"

fun Unwrap :: "'n paylio_error \<Rightarrow> 'n PaylioError" where
  "Unwrap (APIError e) = e"
| "Unwrap (AuthenticationError e) = e"
| "Unwrap (InvalidRequestError e) = e"
| "Unwrap (NotFoundError e) = e"
| "Unwrap (RateLimitError e) = e"
| "Unwrap (APIConnectionError e) = e"

definition NewAPIError :: "'n ErrorParams \<Rightarrow> 'n paylio_error" where
  "NewAPIError p = APIError (newPaylioError p)"

definition NewAuthenticationError :: "'n ErrorParams \<Rightarrow> 'n paylio_error" where
  "NewAuthenticationError p = AuthenticationError (newPaylioError p)"

definition NewInvalidRequestError :: "'n ErrorParams \<Rightarrow> 'n paylio_error" where
  "NewInvalidRequestError p = InvalidRequestError (newPaylioError p)"

definition NewNotFoundError :: "'n ErrorParams \<Rightarrow> 'n paylio_error" where
  "NewNotFoundError p = NotFoundError (newPaylioError p)"

definition NewRateLimitError :: "'n ErrorParams \<Rightarrow> 'n paylio_error" where
  "NewRateLimitError p = RateLimitError (newPaylioError p)"

definition NewAPIConnectionError :: "'n ErrorParams \<Rightarrow> 'n paylio_error" where
  "NewAPIConnectionError p = APIConnectionError (newPaylioError p)"

definition errorClassForStatus :: "int \<Rightarrow> 'n ErrorParams \<Rightarrow> 'n paylio_error" where
  "errorClassForStatus status p =
     (if status = 401 then NewAuthenticationError p
      else if status = 400 then NewInvalidRequestError p
      else if status = 404 then NewNotFoundError p
      else if status = 429 then NewRateLimitError p
      else NewAPIError p)"

section \<open>http\_client.go: handleResponse\<close>

text \<open>
  Of \<^verbatim>\<open>*http.Response\<close> the function reads the status code, the header (a map from a
  key to its list of values) and the body. \<open>Body\<close> is the outcome of
  \<^verbatim>\<open>io.ReadAll(resp.Body)\<close>: \<^term>\<open>Inl err\<close> when the stream fails, \<^term>\<open>Inr text\<close> when it
  was read to its end.
\<close>

record http_Response =
  StatusCode :: int
  Header :: "string \<Rightarrow> string list option"
  Body :: "go_error + string"

text \<open>
  Three blocks of \<open>handleResponse\<close> are named, so that statements can speak of them.

  Lines 103 to 108, \<^verbatim>\<open>for k, v := range resp.Header { if len(v) > 0 { headers[k] = v[0] } }\<close>:
  the loop visits every key of the map once and writes only that key of the fresh
  map \<open>headers\<close>, so the order of the visits does not show in the result.
\<close>

definition responseHeaders :: "(string \<Rightarrow> string list option) \<Rightarrow> (string \<Rightarrow> string option)" where
  "responseHeaders header =
     (\<lambda>k. case header k of
            None \<Rightarrow> None
          | Some v \<Rightarrow> (if length v > 0 then Some (v ! 0) else None))"

text \<open>
  Lines 110 to 113: \<^verbatim>\<open>if err := json.Unmarshal(bodyBytes, &jsonBody); err != nil { jsonBody = nil }\<close>.
\<close>

definition decodeBody :: "(string \<Rightarrow> 'n json option) \<Rightarrow> string \<Rightarrow> 'n json_map option" where
  "decodeBody parse bodyBytes =
     (case json_Unmarshal parse bodyBytes of
        (Some err, jsonBody) \<Rightarrow> None
      | (None, jsonBody) \<Rightarrow> jsonBody)"

text \<open>
  Lines 126 to 145: the pair \<open>(errorCode, errorMessage)\<close> after the inspection of the
  parsed body. A type assertion \<^verbatim>\<open>x.(string)\<close> on a missing key or on a value of
  another type gives \<^verbatim>\<open>ok == false\<close>; a type switch with no matching case does nothing.
\<close>

definition errorDetails :: "string \<Rightarrow> 'n json_map option \<Rightarrow> string \<times> string" where
  "errorDetails httpBody jsonBody =
     (let errorCode = [];
          errorMessage = httpBody
      in case jsonBody of
           None \<Rightarrow> (errorCode, errorMessage)
         | Some jb \<Rightarrow>
             (case jb ''error'' of
                Some errField \<Rightarrow>
                  (case errField of
                     JObject e \<Rightarrow>
                       (let errorCode = (case e ''code'' of
                                           Some (JString code) \<Rightarrow> code
                                         | _ \<Rightarrow> errorCode);
                            errorMessage = (case e ''message'' of
                                              Some (JString msg) \<Rightarrow> msg
                                            | _ \<Rightarrow> errorMessage)
                        in (errorCode, errorMessage))
                   | JString e \<Rightarrow> (errorCode, e)
                   | _ \<Rightarrow> (errorCode, errorMessage))
              | None \<Rightarrow>
                  (case jb ''detail'' of
                     Some (JString detail) \<Rightarrow> (errorCode, detail)
                   | _ \<Rightarrow> (errorCode, errorMessage))))"

text \<open>
  The result is \<^term>\<open>Inr m\<close> for \<^verbatim>\<open>return m, nil\<close> and \<^term>\<open>Inl e\<close> for
  \<^verbatim>\<open>return nil, e\<close>.
\<close>

definition handleResponse ::
  "(string \<Rightarrow> 'n json option) \<Rightarrow> http_Response \<Rightarrow> 'n paylio_error + 'n json_map" where
  "handleResponse parse resp =
     (let httpStatus = StatusCode resp in
      case Body resp of
        Inl err \<Rightarrow>
          Inl (NewAPIConnectionError
                \<lparr>Message = ''failed to read response body: '' @ err, HTTPStatus = 0,
                 HTTPBody = [], JSONBody = None, Headers = None, Code = []\<rparr>)
      | Inr httpBody \<Rightarrow>
          let headers = responseHeaders (Header resp);
              jsonBody = decodeBody parse httpBody
          in
          if httpStatus \<ge> 200 \<and> httpStatus < 300 then
            (case jsonBody of
               None \<Rightarrow>
                 Inl (NewAPIError
                       \<lparr>Message = ''Invalid JSON in response body'', HTTPStatus = httpStatus,
                        HTTPBody = httpBody, JSONBody = None, Headers = None, Code = []\<rparr>)
             | Some m \<Rightarrow> Inr m)
          else
            let (errorCode, errorMessage) = errorDetails httpBody jsonBody;
                params = \<lparr>Message = errorMessage, HTTPStatus = httpStatus,
                          HTTPBody = httpBody, JSONBody = jsonBody,
                          Headers = Some headers, Code = errorCode\<rparr>
            in Inl (errorClassForStatus httpStatus params))"

section \<open>http\_client.go: request\<close>

text \<open>
  \<open>client\<close> stands for the \<^verbatim>\<open>*http.Client\<close>: the function is its method \<^verbatim>\<open>Do\<close>, which
  returns an error or a response. \<open>timeout\<close> is a \<^verbatim>\<open>time.Duration\<close>.
\<close>

record http_Request =
  Method :: string
  URL :: string
  RequestBody :: "string option"
  RequestHeader :: "string \<Rightarrow> string option"

record httpClient =
  apiKey :: string
  baseURL :: string
  timeout :: int
  client :: "http_Request \<Rightarrow> go_error + http_Response"

text \<open>
  \<^verbatim>\<open>requestOptions\<close>: both maps may be \<^verbatim>\<open>nil\<close>. The second field is \<^verbatim>\<open>JSONBody\<close> in
  the source, a name the error record already has. Its values are Go values of any
  type, the parameter \<open>'v\<close>.
\<close>

record 'v requestOptions =
  Params :: "(string \<Rightarrow> string option) option"
  JSONBody' :: "(string \<Rightarrow> 'v option) option"

text \<open>
  What \<open>request\<close> calls outside the repository is a parameter:
  \<^item> \<open>url_Parse\<close> is \<^verbatim>\<open>url.Parse\<close>, and \<open>url_withQuery u params\<close> is the text of \<^verbatim>\<open>u\<close>
    after lines 52 to 57 (\<^verbatim>\<open>q := u.Query()\<close>, \<^verbatim>\<open>q.Set(k, v)\<close> for every parameter,
    \<^verbatim>\<open>u.RawQuery = q.Encode()\<close>, \<^verbatim>\<open>u.String()\<close>);
  \<^item> \<open>json_Marshal\<close> is \<^verbatim>\<open>json.Marshal\<close> on the body map;
  \<^item> \<open>http_NewRequest\<close> is the check of method and URL that
    \<^verbatim>\<open>http.NewRequestWithContext\<close> makes: the error it returns, if any;
  \<^item> \<open>Version\<close> is the package constant of that name, declared in a file that is not
    among the sources;
  \<^item> \<open>json_parse\<close> is the grammar of \<^verbatim>\<open>encoding/json\<close>, as in \<open>json_Unmarshal\<close>.
\<close>

record ('u, 'v, 'n) stdlib =
  url_Parse :: "string \<Rightarrow> go_error + 'u"
  url_withQuery :: "'u \<Rightarrow> (string \<Rightarrow> string option) \<Rightarrow> string"
  json_Marshal :: "(string \<Rightarrow> 'v option) \<Rightarrow> go_error + string"
  http_NewRequest :: "string \<Rightarrow> string \<Rightarrow> go_error option"
  Version :: string
  json_parse :: "string \<Rightarrow> 'n json option"

text \<open>
  The context of line 69 is derived from the caller's context and \<open>timeout hc\<close>.
  \<open>ctx_Err\<close> is what \<^verbatim>\<open>ctx.Err()\<close> returns when the exchange is over, that is, when
  \<^verbatim>\<open>Do\<close> has failed or the body has been read or has failed to be read: \<^term>\<open>None\<close> for
  \<^verbatim>\<open>nil\<close>. The code reads it once, on line 85, after \<^verbatim>\<open>Do\<close> has failed.
\<close>

datatype ctx_error = Canceled | DeadlineExceeded

text \<open>
  The three steps that come before the exchange are named.

  Lines 45 to 58: the URL of the request. The query parameters are merged only when
  \<open>opts\<close> and its \<open>Params\<close> are not \<^verbatim>\<open>nil\<close>; only then is the URL parsed.
\<close>

definition buildURL ::
  "('u, 'v, 'n) stdlib \<Rightarrow> httpClient \<Rightarrow> string \<Rightarrow> 'v requestOptions option \<Rightarrow>
     go_error + string" where
  "buildURL lib hc path opts =
     (let fullURL = baseURL hc @ path in
      case opts of
        None \<Rightarrow> Inr fullURL
      | Some opt \<Rightarrow>
          (case Params opt of
             None \<Rightarrow> Inr fullURL
           | Some ps \<Rightarrow>
               (case url_Parse lib fullURL of
                  Inl err \<Rightarrow> Inl err
                | Inr u \<Rightarrow> Inr (url_withQuery lib u ps))))"

text \<open>
  Lines 60 to 67: the body of the request, \<^term>\<open>None\<close> for the \<^verbatim>\<open>nil\<close> reader.
\<close>

definition marshalBody ::
  "('u, 'v, 'n) stdlib \<Rightarrow> 'v requestOptions option \<Rightarrow> go_error + string option" where
  "marshalBody lib opts =
     (case opts of
        None \<Rightarrow> Inr None
      | Some opt \<Rightarrow>
          (case JSONBody' opt of
             None \<Rightarrow> Inr None
           | Some jb \<Rightarrow>
               (case json_Marshal lib jb of
                  Inl err \<Rightarrow> Inl err
                | Inr b \<Rightarrow> Inr (Some b))))"

text \<open>
  Lines 72 to 81: the request with its five fixed headers. The header keys are written
  as in the source (\<^verbatim>\<open>net/http\<close> stores them in canonical capitalisation).
\<close>

definition newRequest ::
  "('u, 'v, 'n) stdlib \<Rightarrow> httpClient \<Rightarrow> string \<Rightarrow> string \<Rightarrow> string option \<Rightarrow>
     go_error + http_Request" where
  "newRequest lib hc method fullURL body =
     (case http_NewRequest lib method fullURL of
        Some err \<Rightarrow> Inl err
      | None \<Rightarrow>
          Inr \<lparr>Method = method, URL = fullURL, RequestBody = body,
               RequestHeader =
                 [''X-API-Key'' \<mapsto> apiKey hc,
                  ''Content-Type'' \<mapsto> ''application/json'',
                  ''Accept'' \<mapsto> ''application/json'',
                  ''User-Agent'' \<mapsto> ''paylio-go/'' @ Version lib,
                  ''X-SDK-Source'' \<mapsto> ''go'']\<rparr>)"

text \<open>
  \<open>request\<close> returns its result together with the list of the requests it handed to
  \<^verbatim>\<open>hc.client.Do\<close>: the HTTP exchanges of the call.
\<close>

definition request ::
  "('u, 'v, 'n) stdlib \<Rightarrow> ctx_error option \<Rightarrow> httpClient \<Rightarrow> string \<Rightarrow> string \<Rightarrow>
     'v requestOptions option \<Rightarrow> ('n paylio_error + 'n json_map) \<times> http_Request list" where
  "request lib ctx_Err hc method path opts =
     (case buildURL lib hc path opts of
        Inl err \<Rightarrow>
          (Inl (NewAPIConnectionError
                 \<lparr>Message = ''failed to parse URL: '' @ err, HTTPStatus = 0,
                  HTTPBody = [], JSONBody = None, Headers = None, Code = []\<rparr>), [])
      | Inr fullURL \<Rightarrow>
          (case marshalBody lib opts of
             Inl err \<Rightarrow>
               (Inl (NewAPIConnectionError
                      \<lparr>Message = ''failed to marshal body: '' @ err, HTTPStatus = 0,
                       HTTPBody = [], JSONBody = None, Headers = None, Code = []\<rparr>), [])
           | Inr body \<Rightarrow>
               (case newRequest lib hc method fullURL body of
                  Inl err \<Rightarrow>
                    (Inl (NewAPIConnectionError
                           \<lparr>Message = ''failed to create request: '' @ err, HTTPStatus = 0,
                            HTTPBody = [], JSONBody = None, Headers = None, Code = []\<rparr>), [])
                | Inr req \<Rightarrow>
                    (case client hc req of
                       Inl err \<Rightarrow>
                         (if ctx_Err = Some DeadlineExceeded then
                            Inl (NewAPIConnectionError
                                  \<lparr>Message = ''Request timed out'', HTTPStatus = 0,
                                   HTTPBody = [], JSONBody = None, Headers = None,
                                   Code = []\<rparr>)
                          else
                            Inl (NewAPIConnectionError
                                  \<lparr>Message = ''Connection error: '' @ err, HTTPStatus = 0,
                                   HTTPBody = [], JSONBody = None, Headers = None,
                                   Code = []\<rparr>),
                          [req])
                     | Inr resp \<Rightarrow> (handleResponse (json_parse lib) resp, [req])))))"

section \<open>The response types: HasMore and unmarshalTo\<close>

record 'a PaginatedList =
  Items :: "'a list"
  Total :: int
  Page :: int
  PageSize :: int
  TotalPages :: int

definition HasMore :: "'a PaginatedList \<Rightarrow> bool" where
  "HasMore p \<longleftrightarrow> Page p > 0 \<and> Page p < TotalPages p"

text \<open>
  \<open>unmarshalTo\<close> is generic in the target type \<open>'t\<close>. \<^verbatim>\<open>json.Marshal\<close> on the map and
  \<^verbatim>\<open>json.Unmarshal\<close> into a \<open>'t\<close> are the parameters \<open>marshal\<close> and \<open>unmarshal\<close>.
  \<^verbatim>\<open>fmt.Errorf("...: %w", err)\<close> makes an error that wraps \<open>err\<close> and whose text is
  the format with the text of \<open>err\<close> in the place of \<^verbatim>\<open>%w\<close>.
\<close>

record wrapError =
  msg :: string
  err :: go_error

definition unmarshalTo ::
  "((string \<Rightarrow> 'v option) \<Rightarrow> go_error + string) \<Rightarrow> (string \<Rightarrow> go_error + 't) \<Rightarrow>
     (string \<Rightarrow> 'v option) \<Rightarrow> wrapError + 't" where
  "unmarshalTo marshal unmarshal data =
     (case marshal data of
        Inl e \<Rightarrow> Inl \<lparr>msg = ''failed to marshal response: '' @ e, err = e\<rparr>
      | Inr b \<Rightarrow>
          (case unmarshal b of
             Inl e \<Rightarrow> Inl \<lparr>msg = ''failed to unmarshal response: '' @ e, err = e\<rparr>
           | Inr result \<Rightarrow> Inr result))"

section \<open>The derivation of the error message as the specification words it\<close>

text \<open>
  This definition follows the words of the specification, not the source: the four
  steps (a) to (d) of its response handling, each tried when the one before does not
  apply. It is compared with \<open>errorDetails\<close> below.
  \<^enum> The body has an \<^verbatim>\<open>error\<close> field that is an object: \<^verbatim>\<open>code\<close> and \<^verbatim>\<open>message\<close>
    are taken from it when they are strings, the message is the raw body otherwise.
  \<^enum> Else the body has an \<^verbatim>\<open>error\<close> field that is a string: that is the message.
  \<^enum> Else the body has a \<^verbatim>\<open>detail\<close> field that is a string: that is the message.
  \<^enum> Else the message is the raw body.
\<close>

definition claimed_errorDetails :: "string \<Rightarrow> 'n json_map \<Rightarrow> string \<times> string" where
  "claimed_errorDetails httpBody jb =
     (case jb ''error'' of
        Some (JObject e) \<Rightarrow>
          ((case e ''code'' of Some (JString code) \<Rightarrow> code | _ \<Rightarrow> []),
           (case e ''message'' of Some (JString m) \<Rightarrow> m | _ \<Rightarrow> httpBody))
      | Some (JString s) \<Rightarrow> ([], s)
      | _ \<Rightarrow>
          (case jb ''detail'' of
             Some (JString detail) \<Rightarrow> ([], detail)
           | _ \<Rightarrow> ([], httpBody)))"

section \<open>The type of an error\<close>

text \<open>
  Which of the six error types a value has, for statements about the classification
  alone.
\<close>

datatype error_kind =
  KAPIError | KAuthenticationError | KInvalidRequestError | KNotFoundError
  | KRateLimitError | KAPIConnectionError

fun kind_of :: "'n paylio_error \<Rightarrow> error_kind" where
  "kind_of (APIError e) = KAPIError"
| "kind_of (AuthenticationError e) = KAuthenticationError"
| "kind_of (InvalidRequestError e) = KInvalidRequestError"
| "kind_of (NotFoundError e) = KNotFoundError"
| "kind_of (RateLimitError e) = KRateLimitError"
| "kind_of (APIConnectionError e) = KAPIConnectionError"

section \<open>Facts about the classification, the response handler and the request\<close>

lemma kind_of_errorClassForStatus:
  "kind_of (errorClassForStatus status p) =
     (if status = 401 then KAuthenticationError
      else if status = 400 then KInvalidRequestError
      else if status = 404 then KNotFoundError
      else if status = 429 then KRateLimitError
      else KAPIError)"
  by (simp add: errorClassForStatus_def NewAuthenticationError_def
      NewInvalidRequestError_def NewNotFoundError_def NewRateLimitError_def NewAPIError_def)

lemma newPaylioError_id: "newPaylioError p = p"
  by (simp add: newPaylioError_def)

lemma Unwrap_errorClassForStatus: "Unwrap (errorClassForStatus status p) = p"
  by (simp add: errorClassForStatus_def NewAuthenticationError_def
      NewInvalidRequestError_def NewNotFoundError_def NewRateLimitError_def NewAPIError_def
      newPaylioError_id)

lemma handleResponse_non2xx:
  assumes "Body resp = Inr httpBody"
    and "\<not> (200 \<le> StatusCode resp \<and> StatusCode resp < 300)"
  shows "handleResponse parse resp =
           Inl (errorClassForStatus (StatusCode resp)
                 \<lparr>Message = snd (errorDetails httpBody (decodeBody parse httpBody)),
                  HTTPStatus = StatusCode resp, HTTPBody = httpBody,
                  JSONBody = decodeBody parse httpBody,
                  Headers = Some (responseHeaders (Header resp)),
                  Code = fst (errorDetails httpBody (decodeBody parse httpBody))\<rparr>)"
  using assms by (auto simp add: handleResponse_def Let_def split: prod.split)

lemma handleResponse_2xx:
  assumes "Body resp = Inr httpBody"
    and "200 \<le> StatusCode resp \<and> StatusCode resp < 300"
  shows "handleResponse parse resp =
           (case decodeBody parse httpBody of
              None \<Rightarrow>
                Inl (APIError
                      \<lparr>Message = ''Invalid JSON in response body'',
                       HTTPStatus = StatusCode resp, HTTPBody = httpBody, JSONBody = None,
                       Headers = None, Code = []\<rparr>)
            | Some m \<Rightarrow> Inr m)"
  using assms
  by (simp add: handleResponse_def Let_def NewAPIError_def newPaylioError_id split: option.split)

lemma decodeBody_cases:
  "decodeBody parse text = (case parse text of Some (JObject m) \<Rightarrow> Some m | _ \<Rightarrow> None)"
  by (simp add: decodeBody_def json_Unmarshal_def split: option.split json.split)

lemma errorDetails_Some:
  "errorDetails httpBody (Some jb) =
     (case jb ''error'' of
        Some (JObject e) \<Rightarrow>
          ((case e ''code'' of Some (JString code) \<Rightarrow> code | _ \<Rightarrow> []),
           (case e ''message'' of Some (JString m) \<Rightarrow> m | _ \<Rightarrow> httpBody))
      | Some (JString s) \<Rightarrow> ([], s)
      | Some _ \<Rightarrow> ([], httpBody)
      | None \<Rightarrow>
          (case jb ''detail'' of
             Some (JString detail) \<Rightarrow> ([], detail)
           | _ \<Rightarrow> ([], httpBody)))"
  by (simp add: errorDetails_def Let_def split: option.split json.split)

lemma errorDetails_None: "errorDetails httpBody None = ([], httpBody)"
  by (simp add: errorDetails_def)

lemma responseHeaders_cases:
  "responseHeaders header k =
     (case header k of None \<Rightarrow> None | Some [] \<Rightarrow> None | Some (v # vs) \<Rightarrow> Some v)"
  by (simp add: responseHeaders_def split: option.split list.split)

lemma handleResponse_error_headers:
  assumes "handleResponse parse resp = Inl e"
    and "Headers (Unwrap e) = Some h"
  shows "h = responseHeaders (Header resp)"
proof (cases "Body resp")
  case (Inl err)
  then show ?thesis
    using assms
    by (auto simp add: handleResponse_def NewAPIConnectionError_def newPaylioError_id)
next
  case (Inr httpBody)
  show ?thesis
  proof (cases "200 \<le> StatusCode resp \<and> StatusCode resp < 300")
    case True
    then show ?thesis
      using assms handleResponse_2xx [OF Inr True, of parse]
      by (auto split: option.splits)
  next
    case False
    then show ?thesis
      using assms handleResponse_non2xx [OF Inr False, of parse]
      by (auto simp add: Unwrap_errorClassForStatus)
  qed
qed

lemma request_sent:
  assumes "snd (request lib ctx_Err hc method path opts) = [req]"
  shows "fst (request lib ctx_Err hc method path opts) =
           (case client hc req of
              Inl cause \<Rightarrow>
                Inl (APIConnectionError
                      \<lparr>Message = (if ctx_Err = Some DeadlineExceeded then ''Request timed out''
                                  else ''Connection error: '' @ cause),
                       HTTPStatus = 0, HTTPBody = [], JSONBody = None, Headers = None,
                       Code = []\<rparr>)
            | Inr resp \<Rightarrow> handleResponse (json_parse lib) resp)"
proof (cases "buildURL lib hc path opts")
  case Inl
  with assms show ?thesis by (simp add: request_def)
next
  case (Inr fullURL)
  note url = this
  show ?thesis
  proof (cases "marshalBody lib opts")
    case Inl
    with assms url show ?thesis by (simp add: request_def)
  next
    case (Inr body)
    note body = this
    show ?thesis
    proof (cases "newRequest lib hc method fullURL body")
      case Inl
      with assms url body show ?thesis by (simp add: request_def)
    next
      case (Inr req')
      have "req' = req"
        using assms url body Inr by (simp add: request_def split: sum.splits)
      with url body Inr show ?thesis
        by (simp add: request_def NewAPIConnectionError_def newPaylioError_id
            split: sum.split)
    qed
  qed
qed

lemma request_marshal_failure:
  assumes "opts = Some opt"
    and "JSONBody' opt = Some jb"
    and "json_Marshal lib jb = Inl cause"
  shows "request lib ctx_Err hc method path opts =
           (Inl (APIConnectionError
                  \<lparr>Message =
                     (case buildURL lib hc path opts of
                        Inl uerr \<Rightarrow> ''failed to parse URL: '' @ uerr
                      | Inr fullURL \<Rightarrow> ''failed to marshal body: '' @ cause),
                   HTTPStatus = 0, HTTPBody = [], JSONBody = None, Headers = None,
                   Code = []\<rparr>), [])"
proof -
  have "marshalBody lib opts = Inl cause"
    using assms by (simp add: marshalBody_def)
  then show ?thesis
    by (simp add: request_def NewAPIConnectionError_def newPaylioError_id split: sum.split)
qed

section \<open>The claims\<close>

subsection \<open>C1: classification by status\<close>

text \<open>
  C1. For every response outside the range 200 to 299 whose body has been read,
  \<open>handleResponse\<close> returns an error, and the type of that error is a total function
  of the status code: 401 gives \<open>AuthenticationError\<close>, 400 \<open>InvalidRequestError\<close>,
  404 \<open>NotFoundError\<close>, 429 \<open>RateLimitError\<close> and every other status \<open>APIError\<close>.
\<close>

theorem C1_status_classification:
  assumes "Body resp = Inr httpBody"
    and "\<not> (200 \<le> StatusCode resp \<and> StatusCode resp < 300)"
  shows "\<exists>e. handleResponse parse resp = Inl e \<and>
             kind_of e =
               (if StatusCode resp = 401 then KAuthenticationError
                else if StatusCode resp = 400 then KInvalidRequestError
                else if StatusCode resp = 404 then KNotFoundError
                else if StatusCode resp = 429 then KRateLimitError
                else KAPIError)"
  using handleResponse_non2xx [OF assms, of parse]
  by (simp add: kind_of_errorClassForStatus)

text \<open>The theorem at a 404 and at a 503 response with a plain-text body.\<close>

theorem C1_status_classification_witness:
  "(\<exists>e. handleResponse (\<lambda>text. None :: string json option)
           \<lparr>StatusCode = 404, Header = Map.empty, Body = Inr ''Not Found''\<rparr> = Inl e \<and>
        kind_of e = KNotFoundError) \<and>
   (\<exists>e. handleResponse (\<lambda>text. None :: string json option)
           \<lparr>StatusCode = 503, Header = Map.empty, Body = Inr ''Service Unavailable''\<rparr> = Inl e \<and>
        kind_of e = KAPIError)"
proof
  show "\<exists>e. handleResponse (\<lambda>text. None :: string json option)
           \<lparr>StatusCode = 404, Header = Map.empty, Body = Inr ''Not Found''\<rparr> = Inl e \<and>
        kind_of e = KNotFoundError"
    using C1_status_classification
          [of "\<lparr>StatusCode = 404, Header = Map.empty, Body = Inr ''Not Found''\<rparr>"
              "''Not Found''" "\<lambda>text. None :: string json option"]
    by simp
  show "\<exists>e. handleResponse (\<lambda>text. None :: string json option)
           \<lparr>StatusCode = 503, Header = Map.empty, Body = Inr ''Service Unavailable''\<rparr> = Inl e \<and>
        kind_of e = KAPIError"
    using C1_status_classification
          [of "\<lparr>StatusCode = 503, Header = Map.empty, Body = Inr ''Service Unavailable''\<rparr>"
              "''Service Unavailable''" "\<lambda>text. None :: string json option"]
    by simp
qed

subsection \<open>C2: message and code of an error response\<close>

text \<open>
  C2, as the specification words it, fails on a body whose \<^verbatim>\<open>error\<close> field is neither
  an object nor a string and whose \<^verbatim>\<open>detail\<close> field is a string: the source looks at
  \<^verbatim>\<open>detail\<close> only in the \<^verbatim>\<open>else\<close> branch of \<^verbatim>\<open>if errField, ok := jsonBody["error"]; ok\<close>,
  that is, only when the key \<^verbatim>\<open>error\<close> is absent. For the body
  \<^verbatim>\<open>{"error": true, "detail": "quota exceeded"}\<close> with status 500 the message of the
  error is the raw body, where the steps of the specification give the \<^verbatim>\<open>detail\<close> text.
\<close>

theorem C2_error_field_hides_detail:
  \<open>handleResponse
     [''{"error": true, "detail": "quota exceeded"}'' \<mapsto>
        JObject [''error'' \<mapsto> JBool True, ''detail'' \<mapsto> JString ''quota exceeded'']]
     \<lparr>StatusCode = 500, Header = Map.empty,
      Body = Inr ''{"error": true, "detail": "quota exceeded"}''\<rparr> =
   Inl (APIError
         \<lparr>Message = ''{"error": true, "detail": "quota exceeded"}'', HTTPStatus = 500,
          HTTPBody = ''{"error": true, "detail": "quota exceeded"}'',
          JSONBody = Some [''error'' \<mapsto> JBool True, ''detail'' \<mapsto> JString ''quota exceeded''],
          Headers = Some (responseHeaders Map.empty), Code = []\<rparr>
        :: string paylio_error) \<and>
   claimed_errorDetails ''{"error": true, "detail": "quota exceeded"}''
     [''error'' \<mapsto> JBool True, ''detail'' \<mapsto> (JString ''quota exceeded'' :: string json)] =
   ([], ''quota exceeded'')\<close>
  by (simp add: handleResponse_def decodeBody_def json_Unmarshal_def errorDetails_def
      errorClassForStatus_def NewAPIError_def newPaylioError_def claimed_errorDetails_def)

text \<open>
  C2, amended. For every response outside the range 200 to 299 whose body parses as a
  JSON object:
  \<^item> when the \<^verbatim>\<open>error\<close> field is an object, the code is its \<^verbatim>\<open>code\<close> field if that is a
    string and empty otherwise, and the message is its \<^verbatim>\<open>message\<close> field if that is a
    string and the raw body text otherwise;
  \<^item> when the \<^verbatim>\<open>error\<close> field is a string, it is the message, and there is no code;
  \<^item> when the \<^verbatim>\<open>error\<close> field is present and is neither an object nor a string, the
    message is the raw body text and there is no code, whatever \<^verbatim>\<open>detail\<close> holds;
  \<^item> when there is no \<^verbatim>\<open>error\<close> field and the \<^verbatim>\<open>detail\<close> field is a string, that is the
    message, and there is no code;
  \<^item> when there is no \<^verbatim>\<open>error\<close> field and no string \<^verbatim>\<open>detail\<close> field, the message is
    the raw body text and there is no code.
\<close>

theorem C2_error_details:
  assumes "Body resp = Inr httpBody"
    and "\<not> (200 \<le> StatusCode resp \<and> StatusCode resp < 300)"
    and "parse httpBody = Some (JObject jb)"
  shows "\<exists>e. handleResponse parse resp = Inl e \<and>
           (\<forall>obj. jb ''error'' = Some (JObject obj) \<longrightarrow>
              Code (Unwrap e) = (case obj ''code'' of Some (JString c) \<Rightarrow> c | _ \<Rightarrow> []) \<and>
              Message (Unwrap e) =
                (case obj ''message'' of Some (JString m) \<Rightarrow> m | _ \<Rightarrow> httpBody)) \<and>
           (\<forall>s. jb ''error'' = Some (JString s) \<longrightarrow>
              Code (Unwrap e) = [] \<and> Message (Unwrap e) = s) \<and>
           (\<forall>v. jb ''error'' = Some v \<and> (\<forall>obj. v \<noteq> JObject obj) \<and> (\<forall>s. v \<noteq> JString s) \<longrightarrow>
              Code (Unwrap e) = [] \<and> Message (Unwrap e) = httpBody) \<and>
           (\<forall>d. jb ''error'' = None \<and> jb ''detail'' = Some (JString d) \<longrightarrow>
              Code (Unwrap e) = [] \<and> Message (Unwrap e) = d) \<and>
           (jb ''error'' = None \<and> (\<forall>d. jb ''detail'' \<noteq> Some (JString d)) \<longrightarrow>
              Code (Unwrap e) = [] \<and> Message (Unwrap e) = httpBody)"
proof -
  have dec: "decodeBody parse httpBody = Some jb"
    using assms(3) by (simp add: decodeBody_cases)
  have res: "handleResponse parse resp =
               Inl (errorClassForStatus (StatusCode resp)
                     \<lparr>Message = snd (errorDetails httpBody (Some jb)),
                      HTTPStatus = StatusCode resp, HTTPBody = httpBody,
                      JSONBody = Some jb,
                      Headers = Some (responseHeaders (Header resp)),
                      Code = fst (errorDetails httpBody (Some jb))\<rparr>)"
    using handleResponse_non2xx [OF assms(1,2), of parse] by (simp add: dec)
  show ?thesis
    unfolding res
    by (auto simp add: Unwrap_errorClassForStatus errorDetails_Some
        split: option.splits json.splits)
qed

text \<open>
  The theorem at five bodies, one for each case: the four of the test suite and the
  body of the counterexample.
\<close>

theorem C2_error_details_witness:
  \<open>(\<exists>e. handleResponse
           [''{"error": {"code": "invalid_param", "message": "bad field"}}'' \<mapsto>
              JObject [''error'' \<mapsto>
                JObject [''code'' \<mapsto> JString ''invalid_param'',
                         ''message'' \<mapsto> JString ''bad field'']]]
           \<lparr>StatusCode = 400, Header = Map.empty,
            Body = Inr ''{"error": {"code": "invalid_param", "message": "bad field"}}''\<rparr> =
         Inl (e :: string paylio_error) \<and>
         Code (Unwrap e) = ''invalid_param'' \<and> Message (Unwrap e) = ''bad field'') \<and>
    (\<exists>e. handleResponse
           [''{"error": "legacy error message"}'' \<mapsto>
              JObject [''error'' \<mapsto> JString ''legacy error message'']]
           \<lparr>StatusCode = 500, Header = Map.empty,
            Body = Inr ''{"error": "legacy error message"}''\<rparr> =
         Inl (e :: string paylio_error) \<and>
         Code (Unwrap e) = [] \<and> Message (Unwrap e) = ''legacy error message'') \<and>
    (\<exists>e. handleResponse
           [''{"error": true, "detail": "quota exceeded"}'' \<mapsto>
              JObject [''error'' \<mapsto> JBool True, ''detail'' \<mapsto> JString ''quota exceeded'']]
           \<lparr>StatusCode = 500, Header = Map.empty,
            Body = Inr ''{"error": true, "detail": "quota exceeded"}''\<rparr> =
         Inl (e :: string paylio_error) \<and>
         Code (Unwrap e) = [] \<and>
         Message (Unwrap e) = ''{"error": true, "detail": "quota exceeded"}'') \<and>
    (\<exists>e. handleResponse
           [''{"detail": "fastapi error"}'' \<mapsto>
              JObject [''detail'' \<mapsto> JString ''fastapi error'']]
           \<lparr>StatusCode = 422, Header = Map.empty,
            Body = Inr ''{"detail": "fastapi error"}''\<rparr> =
         Inl (e :: string paylio_error) \<and>
         Code (Unwrap e) = [] \<and> Message (Unwrap e) = ''fastapi error'') \<and>
    (\<exists>e. handleResponse
           [''{"unknown_key": "value"}'' \<mapsto>
              JObject [''unknown_key'' \<mapsto> JString ''value'']]
           \<lparr>StatusCode = 500, Header = Map.empty,
            Body = Inr ''{"unknown_key": "value"}''\<rparr> =
         Inl (e :: string paylio_error) \<and>
         Code (Unwrap e) = [] \<and> Message (Unwrap e) = ''{"unknown_key": "value"}'')\<close>
proof (intro conjI)
  show \<open>\<exists>e. handleResponse
           [''{"error": {"code": "invalid_param", "message": "bad field"}}'' \<mapsto>
              JObject [''error'' \<mapsto>
                JObject [''code'' \<mapsto> JString ''invalid_param'',
                         ''message'' \<mapsto> JString ''bad field'']]]
           \<lparr>StatusCode = 400, Header = Map.empty,
            Body = Inr ''{"error": {"code": "invalid_param", "message": "bad field"}}''\<rparr> =
         Inl (e :: string paylio_error) \<and>
         Code (Unwrap e) = ''invalid_param'' \<and> Message (Unwrap e) = ''bad field''\<close>
    using C2_error_details
      [of \<open>\<lparr>StatusCode = 400, Header = Map.empty,
            Body = Inr ''{"error": {"code": "invalid_param", "message": "bad field"}}''\<rparr>\<close>
          \<open>''{"error": {"code": "invalid_param", "message": "bad field"}}''\<close>
          \<open>[''{"error": {"code": "invalid_param", "message": "bad field"}}'' \<mapsto>
              JObject [''error'' \<mapsto>
                JObject [''code'' \<mapsto> JString ''invalid_param'',
                         ''message'' \<mapsto> JString ''bad field'']]]\<close>
          \<open>[''error'' \<mapsto>
                JObject [''code'' \<mapsto> JString ''invalid_param'',
                         ''message'' \<mapsto> JString ''bad field'']]\<close>]
    by auto
next
  show \<open>\<exists>e. handleResponse
           [''{"error": "legacy error message"}'' \<mapsto>
              JObject [''error'' \<mapsto> JString ''legacy error message'']]
           \<lparr>StatusCode = 500, Header = Map.empty,
            Body = Inr ''{"error": "legacy error message"}''\<rparr> =
         Inl (e :: string paylio_error) \<and>
         Code (Unwrap e) = [] \<and> Message (Unwrap e) = ''legacy error message''\<close>
    using C2_error_details
      [of \<open>\<lparr>StatusCode = 500, Header = Map.empty,
            Body = Inr ''{"error": "legacy error message"}''\<rparr>\<close>
          \<open>''{"error": "legacy error message"}''\<close>
          \<open>[''{"error": "legacy error message"}'' \<mapsto>
              JObject [''error'' \<mapsto> JString ''legacy error message'']]\<close>
          \<open>[''error'' \<mapsto> JString ''legacy error message'']\<close>]
    by auto
next
  show \<open>\<exists>e. handleResponse
           [''{"error": true, "detail": "quota exceeded"}'' \<mapsto>
              JObject [''error'' \<mapsto> JBool True, ''detail'' \<mapsto> JString ''quota exceeded'']]
           \<lparr>StatusCode = 500, Header = Map.empty,
            Body = Inr ''{"error": true, "detail": "quota exceeded"}''\<rparr> =
         Inl (e :: string paylio_error) \<and>
         Code (Unwrap e) = [] \<and>
         Message (Unwrap e) = ''{"error": true, "detail": "quota exceeded"}''\<close>
    using C2_error_details
      [of \<open>\<lparr>StatusCode = 500, Header = Map.empty,
            Body = Inr ''{"error": true, "detail": "quota exceeded"}''\<rparr>\<close>
          \<open>''{"error": true, "detail": "quota exceeded"}''\<close>
          \<open>[''{"error": true, "detail": "quota exceeded"}'' \<mapsto>
              JObject [''error'' \<mapsto> JBool True, ''detail'' \<mapsto> JString ''quota exceeded'']]\<close>
          \<open>[''error'' \<mapsto> JBool True, ''detail'' \<mapsto> JString ''quota exceeded'']\<close>]
    by auto
next
  show \<open>\<exists>e. handleResponse
           [''{"detail": "fastapi error"}'' \<mapsto>
              JObject [''detail'' \<mapsto> JString ''fastapi error'']]
           \<lparr>StatusCode = 422, Header = Map.empty,
            Body = Inr ''{"detail": "fastapi error"}''\<rparr> =
         Inl (e :: string paylio_error) \<and>
         Code (Unwrap e) = [] \<and> Message (Unwrap e) = ''fastapi error''\<close>
    using C2_error_details
      [of \<open>\<lparr>StatusCode = 422, Header = Map.empty,
            Body = Inr ''{"detail": "fastapi error"}''\<rparr>\<close>
          \<open>''{"detail": "fastapi error"}''\<close>
          \<open>[''{"detail": "fastapi error"}'' \<mapsto>
              JObject [''detail'' \<mapsto> JString ''fastapi error'']]\<close>
          \<open>[''detail'' \<mapsto> JString ''fastapi error'']\<close>]
    by auto
next
  show \<open>\<exists>e. handleResponse
           [''{"unknown_key": "value"}'' \<mapsto>
              JObject [''unknown_key'' \<mapsto> JString ''value'']]
           \<lparr>StatusCode = 500, Header = Map.empty,
            Body = Inr ''{"unknown_key": "value"}''\<rparr> =
         Inl (e :: string paylio_error) \<and>
         Code (Unwrap e) = [] \<and> Message (Unwrap e) = ''{"unknown_key": "value"}''\<close>
    using C2_error_details
      [of \<open>\<lparr>StatusCode = 500, Header = Map.empty,
            Body = Inr ''{"unknown_key": "value"}''\<rparr>\<close>
          \<open>''{"unknown_key": "value"}''\<close>
          \<open>[''{"unknown_key": "value"}'' \<mapsto>
              JObject [''unknown_key'' \<mapsto> JString ''value'']]\<close>
          \<open>[''unknown_key'' \<mapsto> JString ''value'']\<close>]
    by auto
qed

subsection \<open>C3: a 2xx response needs a JSON object\<close>

text \<open>
  C3. For every response with a status from 200 to 299 whose body has been read:
  when the body does not parse as a JSON object, the result is an \<open>APIError\<close> with the
  message \<^verbatim>\<open>Invalid JSON in response body\<close>, the status of the response and the raw
  body text; when the body parses as a JSON object, the result is that object.
\<close>

theorem C3_success_needs_an_object:
  assumes "Body resp = Inr httpBody"
    and "200 \<le> StatusCode resp \<and> StatusCode resp < 300"
  shows "((\<forall>m. parse httpBody \<noteq> Some (JObject m)) \<longrightarrow>
            handleResponse parse resp =
              Inl (APIError
                    \<lparr>Message = ''Invalid JSON in response body'',
                     HTTPStatus = StatusCode resp, HTTPBody = httpBody, JSONBody = None,
                     Headers = None, Code = []\<rparr>)) \<and>
         (\<forall>m. parse httpBody = Some (JObject m) \<longrightarrow> handleResponse parse resp = Inr m)"
  using handleResponse_2xx [OF assms, of parse]
  by (auto simp add: decodeBody_cases split: option.splits json.splits)

text \<open>The theorem at the body \<^verbatim>\<open>not json\<close> and at the body \<^verbatim>\<open>{"ok": true}\<close>.\<close>

theorem C3_success_needs_an_object_witness:
  \<open>handleResponse (Map.empty :: string \<Rightarrow> string json option)
      \<lparr>StatusCode = 200, Header = Map.empty, Body = Inr ''not json''\<rparr> =
    Inl (APIError
          \<lparr>Message = ''Invalid JSON in response body'', HTTPStatus = 200,
           HTTPBody = ''not json'', JSONBody = None, Headers = None, Code = []\<rparr>) \<and>
   handleResponse
      [''{"ok": true}'' \<mapsto> JObject [''ok'' \<mapsto> (JBool True :: string json)]]
      \<lparr>StatusCode = 200, Header = Map.empty, Body = Inr ''{"ok": true}''\<rparr> =
    Inr [''ok'' \<mapsto> JBool True]\<close>
  using C3_success_needs_an_object
          [of \<open>\<lparr>StatusCode = 200, Header = Map.empty, Body = Inr ''not json''\<rparr>\<close>
              \<open>''not json''\<close> \<open>Map.empty :: string \<Rightarrow> string json option\<close>]
        C3_success_needs_an_object
          [of \<open>\<lparr>StatusCode = 200, Header = Map.empty, Body = Inr ''{"ok": true}''\<rparr>\<close>
              \<open>''{"ok": true}''\<close>
              \<open>[''{"ok": true}'' \<mapsto> JObject [''ok'' \<mapsto> (JBool True :: string json)]]\<close>]
  by simp

subsection \<open>C4: HasMore\<close>

text \<open>
  C4. For every pair of integers \<open>page\<close> and \<open>total_pages\<close>, \<open>HasMore\<close> on a list with
  that page and that number of pages is true exactly when \<open>page > 0\<close> and
  \<open>page < total_pages\<close>; on page 0 and on the page equal to \<open>total_pages\<close> it is false.
\<close>

theorem C4_HasMore:
  "HasMore \<lparr>Items = items, Total = n, Page = page, PageSize = page_size,
            TotalPages = total_pages\<rparr> = (page > 0 \<and> page < total_pages) \<and>
   HasMore \<lparr>Items = items, Total = n, Page = 0, PageSize = page_size,
            TotalPages = total_pages\<rparr> = False \<and>
   HasMore \<lparr>Items = items, Total = n, Page = total_pages, PageSize = page_size,
            TotalPages = total_pages\<rparr> = False"
  by (simp add: HasMore_def)

subsection \<open>C5: the two steps of unmarshalTo\<close>

text \<open>
  C5. For every mapping and every target type, \<open>unmarshalTo\<close> encodes the mapping and
  then decodes the text into the target. When the encoding fails, the error is the
  text \<^verbatim>\<open>failed to marshal response: \<close> followed by the cause; when the decoding fails,
  it is \<^verbatim>\<open>failed to unmarshal response: \<close> followed by the cause; when both succeed,
  the result is the decoded value. An error of the first step never has the message of
  an error of the second. (The error is what the specification calls a decode error; in
  the source it is the value of \<^verbatim>\<open>fmt.Errorf\<close>.)
\<close>

theorem C5_unmarshalTo_steps:
  "(\<forall>e. marshal data = Inl e \<longrightarrow>
      unmarshalTo marshal unmarshal data =
        Inl \<lparr>msg = ''failed to marshal response: '' @ e, err = e\<rparr>) \<and>
   (\<forall>b e. marshal data = Inr b \<and> unmarshal b = Inl e \<longrightarrow>
      unmarshalTo marshal unmarshal data =
        Inl \<lparr>msg = ''failed to unmarshal response: '' @ e, err = e\<rparr>) \<and>
   (\<forall>b result. marshal data = Inr b \<and> unmarshal b = Inr result \<longrightarrow>
      unmarshalTo marshal unmarshal data = Inr result) \<and>
   (\<forall>e e'. ''failed to marshal response: '' @ e \<noteq> ''failed to unmarshal response: '' @ e')"
  by (simp add: unmarshalTo_def)

text \<open>
  The theorem at the three mappings of the tests: a \<^verbatim>\<open>NaN\<close> that the encoder refuses,
  a string where the target expects a plan, and a mapping that decodes.
\<close>

theorem C5_unmarshalTo_steps_witness:
  \<open>unmarshalTo (\<lambda>data. Inl ''json: unsupported value: NaN'')
      (\<lambda>b. Inr b) [''value'' \<mapsto> JNumber ''NaN''] =
     Inl \<lparr>msg = ''failed to marshal response: json: unsupported value: NaN'',
          err = ''json: unsupported value: NaN''\<rparr> \<and>
   unmarshalTo (\<lambda>data. Inr ''{"plan":"not-a-plan-object"}'')
      (\<lambda>b. Inl ''json: cannot unmarshal string into Go struct field Subscription.plan of type paylio.Plan''
             :: go_error + unit)
      [''plan'' \<mapsto> (JString ''not-a-plan-object'' :: string json)] =
     Inl \<lparr>msg = ''failed to unmarshal response: json: cannot unmarshal string into Go struct field Subscription.plan of type paylio.Plan'',
          err = ''json: cannot unmarshal string into Go struct field Subscription.plan of type paylio.Plan''\<rparr> \<and>
   unmarshalTo (\<lambda>data. Inr ''{"id":"sub_1","status":"active"}'')
      (\<lambda>b. Inr (''sub_1'', ''active''))
      [''id'' \<mapsto> (JString ''sub_1'' :: string json), ''status'' \<mapsto> JString ''active''] =
     (Inr (''sub_1'', ''active'') :: wrapError + string \<times> string)\<close>
  using C5_unmarshalTo_steps
      [of \<open>\<lambda>data. Inl ''json: unsupported value: NaN''\<close>
          \<open>[''value'' \<mapsto> (JNumber ''NaN'' :: string json)]\<close> \<open>\<lambda>b. Inr b :: go_error + string\<close>]
    C5_unmarshalTo_steps
      [of \<open>\<lambda>data. Inr ''{"plan":"not-a-plan-object"}''\<close>
          \<open>[''plan'' \<mapsto> (JString ''not-a-plan-object'' :: string json)]\<close>
          \<open>\<lambda>b. Inl ''json: cannot unmarshal string into Go struct field Subscription.plan of type paylio.Plan''
             :: go_error + unit\<close>]
    C5_unmarshalTo_steps
      [of \<open>\<lambda>data. Inr ''{"id":"sub_1","status":"active"}''\<close>
          \<open>[''id'' \<mapsto> (JString ''sub_1'' :: string json), ''status'' \<mapsto> JString ''active'']\<close>
          \<open>\<lambda>b. Inr (''sub_1'', ''active'') :: go_error + string \<times> string\<close>]
  by simp

subsection \<open>C6: a send that fails\<close>

text \<open>
  C6, as the specification words it, speaks of every request whose deadline elapses
  before completion. The source looks at the deadline in one place only, on line 85,
  after \<^verbatim>\<open>Do\<close> has returned an error. When \<^verbatim>\<open>Do\<close> has returned a response and the
  deadline elapses while \<^verbatim>\<open>io.ReadAll\<close> reads the body, the read fails with the error of
  the context, and lines 97 to 100 of \<open>handleResponse\<close> make the message from that
  error: it is not \<^verbatim>\<open>Request timed out\<close>, although \<^verbatim>\<open>ctx.Err()\<close> is
  \<^verbatim>\<open>context.DeadlineExceeded\<close> by then.
\<close>

theorem C6_deadline_during_body_read:
  \<open>fst (request
          \<lparr>url_Parse = (\<lambda>text. Inr text :: go_error + string),
           url_withQuery = (\<lambda>u params. u),
           json_Marshal = (\<lambda>body :: string \<Rightarrow> string json option. Inr ''{}''),
           http_NewRequest = (\<lambda>method url. None), Version = ''1.0.0'',
           json_parse = (Map.empty :: string \<Rightarrow> string json option)\<rparr>
          (Some DeadlineExceeded)
          \<lparr>apiKey = ''sk_test'', baseURL = ''http://127.0.0.1:8080'', timeout = 50000000,
           client = (\<lambda>req. Inr \<lparr>StatusCode = 200, Header = Map.empty,
                                  Body = Inl ''context deadline exceeded''\<rparr>)\<rparr>
          ''GET'' ''/slow'' None) =
     Inl (APIConnectionError
           \<lparr>Message = ''failed to read response body: context deadline exceeded'',
            HTTPStatus = 0, HTTPBody = [], JSONBody = None, Headers = None, Code = []\<rparr>)\<close>
  by (simp add: request_def buildURL_def marshalBody_def newRequest_def handleResponse_def
      NewAPIConnectionError_def newPaylioError_def)

text \<open>
  C6, amended. For every request whose deadline elapses before the response headers
  are received, that is, every call of \<open>request\<close> in which \<^verbatim>\<open>Do\<close> returns an error and
  \<^verbatim>\<open>ctx.Err()\<close> is \<^verbatim>\<open>context.DeadlineExceeded\<close>, the result is an \<open>APIConnectionError\<close>
  with the message \<^verbatim>\<open>Request timed out\<close>; for every other send failure it is an
  \<open>APIConnectionError\<close> whose message is \<^verbatim>\<open>Connection error: \<close> followed by the text
  of the network error. The two messages are never equal.
\<close>

theorem C6_send_failure_message:
  assumes "snd (request lib ctx_Err hc method path opts) = [req]"
    and "client hc req = Inl cause"
  shows "(ctx_Err = Some DeadlineExceeded \<longrightarrow>
            fst (request lib ctx_Err hc method path opts) =
              Inl (APIConnectionError
                    \<lparr>Message = ''Request timed out'', HTTPStatus = 0, HTTPBody = [],
                     JSONBody = None, Headers = None, Code = []\<rparr>)) \<and>
         (ctx_Err \<noteq> Some DeadlineExceeded \<longrightarrow>
            fst (request lib ctx_Err hc method path opts) =
              Inl (APIConnectionError
                    \<lparr>Message = ''Connection error: '' @ cause, HTTPStatus = 0, HTTPBody = [],
                     JSONBody = None, Headers = None, Code = []\<rparr>)) \<and>
         ''Connection error: '' @ cause \<noteq> ''Request timed out''"
proof -
  have "fst (request lib ctx_Err hc method path opts) =
          Inl (APIConnectionError
                \<lparr>Message = (if ctx_Err = Some DeadlineExceeded then ''Request timed out''
                            else ''Connection error: '' @ cause),
                 HTTPStatus = 0, HTTPBody = [], JSONBody = None, Headers = None,
                 Code = []\<rparr>)"
    using request_sent [OF assms(1)] by (simp add: assms(2))
  then show ?thesis by (cases "ctx_Err = Some DeadlineExceeded") simp_all
qed

text \<open>
  The theorem at a request whose deadline has elapsed and at a request to a port
  where nothing listens.
\<close>

theorem C6_send_failure_message_witness:
  \<open>fst (request
          \<lparr>url_Parse = (\<lambda>text. Inr text :: go_error + string),
           url_withQuery = (\<lambda>u params. u),
           json_Marshal = (\<lambda>body :: string \<Rightarrow> string json option. Inr ''{}''),
           http_NewRequest = (\<lambda>method url. None), Version = ''1.0.0'',
           json_parse = (Map.empty :: string \<Rightarrow> string json option)\<rparr>
          (Some DeadlineExceeded)
          \<lparr>apiKey = ''sk_test'', baseURL = ''http://127.0.0.1:8080'', timeout = 50000000,
           client = (\<lambda>req. Inl ''Get "http://127.0.0.1:8080/slow": context deadline exceeded'')\<rparr>
          ''GET'' ''/slow'' None) =
     Inl (APIConnectionError
           \<lparr>Message = ''Request timed out'', HTTPStatus = 0, HTTPBody = [],
            JSONBody = None, Headers = None, Code = []\<rparr>) \<and>
   fst (request
          \<lparr>url_Parse = (\<lambda>text. Inr text :: go_error + string),
           url_withQuery = (\<lambda>u params. u),
           json_Marshal = (\<lambda>body :: string \<Rightarrow> string json option. Inr ''{}''),
           http_NewRequest = (\<lambda>method url. None), Version = ''1.0.0'',
           json_parse = (Map.empty :: string \<Rightarrow> string json option)\<rparr>
          None
          \<lparr>apiKey = ''sk_test'', baseURL = ''http://127.0.0.1:1'', timeout = 5000000000,
           client = (\<lambda>req. Inl ''Get "http://127.0.0.1:1/fail": dial tcp 127.0.0.1:1: connect: connection refused'')\<rparr>
          ''GET'' ''/fail'' None) =
     Inl (APIConnectionError
           \<lparr>Message = ''Connection error: Get "http://127.0.0.1:1/fail": dial tcp 127.0.0.1:1: connect: connection refused'',
            HTTPStatus = 0, HTTPBody = [], JSONBody = None, Headers = None, Code = []\<rparr>)\<close>
proof -
  let ?lib = \<open>\<lparr>url_Parse = (\<lambda>text. Inr text :: go_error + string),
           url_withQuery = (\<lambda>u params. u),
           json_Marshal = (\<lambda>body :: string \<Rightarrow> string json option. Inr ''{}''),
           http_NewRequest = (\<lambda>method url. None), Version = ''1.0.0'',
           json_parse = (Map.empty :: string \<Rightarrow> string json option)\<rparr>\<close>
  let ?slow = \<open>\<lparr>apiKey = ''sk_test'', baseURL = ''http://127.0.0.1:8080'', timeout = 50000000,
           client = (\<lambda>req. Inl ''Get "http://127.0.0.1:8080/slow": context deadline exceeded'')\<rparr>\<close>
  let ?closed = \<open>\<lparr>apiKey = ''sk_test'', baseURL = ''http://127.0.0.1:1'', timeout = 5000000000,
           client = (\<lambda>req. Inl ''Get "http://127.0.0.1:1/fail": dial tcp 127.0.0.1:1: connect: connection refused'')\<rparr>\<close>
  let ?headers = \<open>[''X-API-Key'' \<mapsto> ''sk_test'', ''Content-Type'' \<mapsto> ''application/json'',
                    ''Accept'' \<mapsto> ''application/json'', ''User-Agent'' \<mapsto> ''paylio-go/1.0.0'',
                    ''X-SDK-Source'' \<mapsto> ''go'']\<close>
  have slow: \<open>snd (request ?lib (Some DeadlineExceeded) ?slow ''GET'' ''/slow'' None) =
                [\<lparr>Method = ''GET'', URL = ''http://127.0.0.1:8080/slow'', RequestBody = None,
                  RequestHeader = ?headers\<rparr>]\<close>
    by (simp add: request_def buildURL_def marshalBody_def newRequest_def)
  have closed: \<open>snd (request ?lib None ?closed ''GET'' ''/fail'' None) =
                [\<lparr>Method = ''GET'', URL = ''http://127.0.0.1:1/fail'', RequestBody = None,
                  RequestHeader = ?headers\<rparr>]\<close>
    by (simp add: request_def buildURL_def marshalBody_def newRequest_def)
  show ?thesis
    using C6_send_failure_message [OF slow,
        of \<open>''Get "http://127.0.0.1:8080/slow": context deadline exceeded''\<close>]
      C6_send_failure_message [OF closed,
        of \<open>''Get "http://127.0.0.1:1/fail": dial tcp 127.0.0.1:1: connect: connection refused''\<close>]
    by simp
qed

subsection \<open>C7: a body that cannot be serialized\<close>

text \<open>
  C7, as the specification words it, fails when query parameters are supplied too and
  the URL does not parse: \<open>request\<close> builds the URL on lines 47 to 58, before it
  serializes the body on lines 61 to 67, and returns from there. With the base URL of
  the test \<^verbatim>\<open>TestHTTPClientURLParseError\<close> (the single byte \<^verbatim>\<open>0x7f\<close>), a parameter
  and the body \<^verbatim>\<open>{"bad": NaN}\<close>, the error cites the URL, not the marshal failure.
  (The text of the error of \<^verbatim>\<open>url.Parse\<close> is shortened.)
\<close>

theorem C7_url_failure_comes_first:
  \<open>json_Marshal
     \<lparr>url_Parse = (\<lambda>text. if CHR 0x7F \<in> set text
                         then Inl ''net/url: invalid control character in URL''
                         else Inr text),
      url_withQuery = (\<lambda>u params. u),
      json_Marshal = (\<lambda>body. Inl ''json: unsupported value: NaN''),
      http_NewRequest = (\<lambda>method url. None), Version = ''1.0.0'',
      json_parse = (Map.empty :: string \<Rightarrow> string json option)\<rparr>
     [''bad'' \<mapsto> (JNumber ''NaN'' :: string json)] = Inl ''json: unsupported value: NaN'' \<and>
   request
     \<lparr>url_Parse = (\<lambda>text. if CHR 0x7F \<in> set text
                         then Inl ''net/url: invalid control character in URL''
                         else Inr text),
      url_withQuery = (\<lambda>u params. u),
      json_Marshal = (\<lambda>body. Inl ''json: unsupported value: NaN''),
      http_NewRequest = (\<lambda>method url. None), Version = ''1.0.0'',
      json_parse = (Map.empty :: string \<Rightarrow> string json option)\<rparr>
     None
     \<lparr>apiKey = ''sk_test'', baseURL = [CHR 0x7F], timeout = 10000000000,
      client = (\<lambda>req. Inl ''unreachable'')\<rparr>
     ''POST'' ''/test''
     (Some \<lparr>Params = Some [''key'' \<mapsto> ''val''],
            JSONBody' = Some [''bad'' \<mapsto> (JNumber ''NaN'' :: string json)]\<rparr>) =
   (Inl (APIConnectionError
          \<lparr>Message = ''failed to parse URL: net/url: invalid control character in URL'',
           HTTPStatus = 0, HTTPBody = [], JSONBody = None, Headers = None, Code = []\<rparr>), [])\<close>
  by (simp add: request_def buildURL_def NewAPIConnectionError_def newPaylioError_def)

text \<open>
  C7, amended. For every request supplied with a JSON body that cannot be serialized,
  \<open>request\<close> fails before any HTTP exchange with an \<open>APIConnectionError\<close> that carries
  the HTTP status 0. The error cites the marshal failure, unless query parameters are
  supplied and the URL fails to parse: then it cites the failure to parse the URL.
\<close>

theorem C7_marshal_failure:
  assumes "opts = Some opt"
    and "JSONBody' opt = Some jb"
    and "json_Marshal lib jb = Inl cause"
  shows "snd (request lib ctx_Err hc method path opts) = [] \<and>
         (\<exists>e. fst (request lib ctx_Err hc method path opts) = Inl (APIConnectionError e) \<and>
              HTTPStatus e = 0 \<and>
              (Params opt = None \<or> (\<exists>u. url_Parse lib (baseURL hc @ path) = Inr u) \<longrightarrow>
                 Message e = ''failed to marshal body: '' @ cause) \<and>
              (\<forall>uerr. Params opt \<noteq> None \<and> url_Parse lib (baseURL hc @ path) = Inl uerr \<longrightarrow>
                 Message e = ''failed to parse URL: '' @ uerr))"
  unfolding request_marshal_failure [OF assms]
  using assms(1)
  by (auto simp add: buildURL_def Let_def split: option.splits sum.splits)

text \<open>The theorem at the request of the test \<^verbatim>\<open>TestHTTPClientBodyMarshalError\<close>.\<close>

theorem C7_marshal_failure_witness:
  \<open>snd (request
          \<lparr>url_Parse = (\<lambda>text. Inr text :: go_error + string),
           url_withQuery = (\<lambda>u params. u),
           json_Marshal = (\<lambda>body. Inl ''json: unsupported value: NaN''),
           http_NewRequest = (\<lambda>method url. None), Version = ''1.0.0'',
           json_parse = (Map.empty :: string \<Rightarrow> string json option)\<rparr>
          None
          \<lparr>apiKey = ''sk_test'', baseURL = ''http://localhost'', timeout = 10000000000,
           client = (\<lambda>req. Inl ''unreachable'')\<rparr>
          ''POST'' ''/test''
          (Some \<lparr>Params = None,
                 JSONBody' = Some [''bad'' \<mapsto> (JNumber ''NaN'' :: string json)]\<rparr>)) = [] \<and>
   (\<exists>e. fst (request
          \<lparr>url_Parse = (\<lambda>text. Inr text :: go_error + string),
           url_withQuery = (\<lambda>u params. u),
           json_Marshal = (\<lambda>body. Inl ''json: unsupported value: NaN''),
           http_NewRequest = (\<lambda>method url. None), Version = ''1.0.0'',
           json_parse = (Map.empty :: string \<Rightarrow> string json option)\<rparr>
          None
          \<lparr>apiKey = ''sk_test'', baseURL = ''http://localhost'', timeout = 10000000000,
           client = (\<lambda>req. Inl ''unreachable'')\<rparr>
          ''POST'' ''/test''
          (Some \<lparr>Params = None,
                 JSONBody' = Some [''bad'' \<mapsto> (JNumber ''NaN'' :: string json)]\<rparr>)) =
        Inl (APIConnectionError e) \<and>
        HTTPStatus e = 0 \<and>
        Message e = ''failed to marshal body: json: unsupported value: NaN'')\<close>
  using C7_marshal_failure
    [of \<open>Some \<lparr>Params = None,
                 JSONBody' = Some [''bad'' \<mapsto> (JNumber ''NaN'' :: string json)]\<rparr>\<close>
        \<open>\<lparr>Params = None,
                 JSONBody' = Some [''bad'' \<mapsto> (JNumber ''NaN'' :: string json)]\<rparr>\<close>
        \<open>[''bad'' \<mapsto> (JNumber ''NaN'' :: string json)]\<close>
        \<open>\<lparr>url_Parse = (\<lambda>text. Inr text :: go_error + string),
           url_withQuery = (\<lambda>u params. u),
           json_Marshal = (\<lambda>body. Inl ''json: unsupported value: NaN''),
           http_NewRequest = (\<lambda>method url. None), Version = ''1.0.0'',
           json_parse = (Map.empty :: string \<Rightarrow> string json option)\<rparr>\<close>
        \<open>''json: unsupported value: NaN''\<close>
        None
        \<open>\<lparr>apiKey = ''sk_test'', baseURL = ''http://localhost'', timeout = 10000000000,
           client = (\<lambda>req. Inl ''unreachable'')\<rparr>\<close>
        \<open>''POST''\<close> \<open>''/test''\<close>]
  by simp

subsection \<open>C8: what an error response carries\<close>

text \<open>
  C8, as the specification words it, fails for a header with several values: the
  field \<^verbatim>\<open>Headers\<close> of an error is a \<^verbatim>\<open>map[string]string\<close>, and lines 103 to 108 store
  \<^verbatim>\<open>v[0]\<close> only. A response with status 500 and the header \<^verbatim>\<open>Set-Cookie\<close> given twice,
  as \<^verbatim>\<open>a=1\<close> and as \<^verbatim>\<open>b=2\<close>, gives an error whose mapping holds \<^verbatim>\<open>a=1\<close>; the second
  value is nowhere on the error, which is the very error of the response that has the
  first value alone.
\<close>

theorem C8_second_header_value_is_dropped:
  \<open>handleResponse [''{"error": "fail"}'' \<mapsto> JObject [''error'' \<mapsto> JString ''fail'']]
      \<lparr>StatusCode = 500, Header = [''Set-Cookie'' \<mapsto> [''a=1'', ''b=2'']],
       Body = Inr ''{"error": "fail"}''\<rparr> =
    Inl (APIError
          \<lparr>Message = ''fail'', HTTPStatus = 500, HTTPBody = ''{"error": "fail"}'',
           JSONBody = Some [''error'' \<mapsto> JString ''fail''],
           Headers = Some [''Set-Cookie'' \<mapsto> ''a=1''], Code = []\<rparr>
         :: string paylio_error) \<and>
   handleResponse [''{"error": "fail"}'' \<mapsto> JObject [''error'' \<mapsto> JString ''fail'']]
      \<lparr>StatusCode = 500, Header = [''Set-Cookie'' \<mapsto> [''a=1'', ''b=2'']],
       Body = Inr ''{"error": "fail"}''\<rparr> =
   handleResponse
      [''{"error": "fail"}'' \<mapsto> JObject [''error'' \<mapsto> (JString ''fail'' :: string json)]]
      \<lparr>StatusCode = 500, Header = [''Set-Cookie'' \<mapsto> [''a=1'']],
       Body = Inr ''{"error": "fail"}''\<rparr>\<close>
proof -
  have h2: "responseHeaders [''Set-Cookie'' \<mapsto> [''a=1'', ''b=2'']] = [''Set-Cookie'' \<mapsto> ''a=1'']"
    by (rule ext) (simp add: responseHeaders_cases)
  have h1: "responseHeaders [''Set-Cookie'' \<mapsto> [''a=1'']] = [''Set-Cookie'' \<mapsto> ''a=1'']"
    by (rule ext) (simp add: responseHeaders_cases)
  show ?thesis
    by (simp add: handleResponse_def decodeBody_def json_Unmarshal_def errorDetails_def
        errorClassForStatus_def NewAPIError_def newPaylioError_def h1 h2)
qed

text \<open>
  C8, amended. For every response outside the range 200 to 299 whose body has been
  read, the error that \<open>handleResponse\<close> returns carries, whatever its type: the message
  and the code derived from the body, the status, the raw body text, the parsed body
  (the object when the body is a JSON object, absent otherwise) and a header mapping.
  The mapping holds, under the key of the response, the first value of every header
  that has at least one value, unchanged; the further values of a header are not
  carried, and a key with an empty list of values or a key that the response does not
  have is not in the mapping.
\<close>

theorem C8_error_carries_response:
  assumes "Body resp = Inr httpBody"
    and "\<not> (200 \<le> StatusCode resp \<and> StatusCode resp < 300)"
  shows "\<exists>e h. handleResponse parse resp = Inl e \<and>
           Message (Unwrap e) = snd (errorDetails httpBody (decodeBody parse httpBody)) \<and>
           Code (Unwrap e) = fst (errorDetails httpBody (decodeBody parse httpBody)) \<and>
           HTTPStatus (Unwrap e) = StatusCode resp \<and>
           HTTPBody (Unwrap e) = httpBody \<and>
           JSONBody (Unwrap e) = decodeBody parse httpBody \<and>
           JSONBody (Unwrap e) =
             (case parse httpBody of Some (JObject m) \<Rightarrow> Some m | _ \<Rightarrow> None) \<and>
           Headers (Unwrap e) = Some h \<and>
           (\<forall>k v vs. Header resp k = Some (v # vs) \<longrightarrow> h k = Some v) \<and>
           (\<forall>k. Header resp k = Some [] \<longrightarrow> h k = None) \<and>
           (\<forall>k. Header resp k = None \<longrightarrow> h k = None)"
  using handleResponse_non2xx [OF assms, of parse]
  by (auto simp add: Unwrap_errorClassForStatus responseHeaders_cases decodeBody_cases)

text \<open>
  The theorem at the response of the test \<^verbatim>\<open>TestHTTPClientErrorPreservesHeaders\<close>, with
  a header of two values and a header with an empty list of values added.
\<close>

theorem C8_error_carries_response_witness:
  \<open>\<exists>e h. handleResponse [''{"error": "fail"}'' \<mapsto> JObject [''error'' \<mapsto> JString ''fail'']]
            \<lparr>StatusCode = 500,
             Header = [''X-Request-Id'' \<mapsto> [''req_abc''], ''Set-Cookie'' \<mapsto> [''a=1'', ''b=2''],
                       ''X-Empty'' \<mapsto> []],
             Body = Inr ''{"error": "fail"}''\<rparr> = Inl (e :: string paylio_error) \<and>
          Message (Unwrap e) = ''fail'' \<and> Code (Unwrap e) = [] \<and>
          HTTPStatus (Unwrap e) = 500 \<and> HTTPBody (Unwrap e) = ''{"error": "fail"}'' \<and>
          JSONBody (Unwrap e) = Some [''error'' \<mapsto> JString ''fail''] \<and>
          Headers (Unwrap e) = Some h \<and> h ''X-Request-Id'' = Some ''req_abc'' \<and>
          h ''Set-Cookie'' = Some ''a=1'' \<and> h ''X-Empty'' = None \<and> h ''X-Other'' = None\<close>
  using C8_error_carries_response
    [of \<open>\<lparr>StatusCode = 500,
             Header = [''X-Request-Id'' \<mapsto> [''req_abc''], ''Set-Cookie'' \<mapsto> [''a=1'', ''b=2''],
                       ''X-Empty'' \<mapsto> []],
             Body = Inr ''{"error": "fail"}''\<rparr>\<close>
        \<open>''{"error": "fail"}''\<close>
        \<open>[''{"error": "fail"}'' \<mapsto> JObject [''error'' \<mapsto> (JString ''fail'' :: string json)]]\<close>]
  by (auto simp add: decodeBody_cases errorDetails_Some)

subsection \<open>C9: valid JSON that is not an object\<close>

text \<open>
  C9. For every response whose body has been read and is valid JSON but not a JSON
  object, \<open>handleResponse\<close> returns what it returns for a body that does not parse at
  all: with a status from 200 to 299 the \<open>APIError\<close> with the message
  \<^verbatim>\<open>Invalid JSON in response body\<close>, and with any other status an error without a parsed
  body whose message is the raw body text.
\<close>

theorem C9_non_object_json:
  assumes "Body resp = Inr httpBody"
    and "parse httpBody = Some v"
    and "\<forall>m. v \<noteq> JObject m"
  shows "handleResponse parse resp = handleResponse (\<lambda>text. None) resp \<and>
         (200 \<le> StatusCode resp \<and> StatusCode resp < 300 \<longrightarrow>
            handleResponse parse resp =
              Inl (APIError
                    \<lparr>Message = ''Invalid JSON in response body'',
                     HTTPStatus = StatusCode resp, HTTPBody = httpBody, JSONBody = None,
                     Headers = None, Code = []\<rparr>)) \<and>
         (\<not> (200 \<le> StatusCode resp \<and> StatusCode resp < 300) \<longrightarrow>
            (\<exists>e. handleResponse parse resp = Inl e \<and> JSONBody (Unwrap e) = None \<and>
                 Message (Unwrap e) = httpBody))"
proof -
  have dec: "decodeBody parse httpBody = None"
    using assms(2,3) by (cases v) (simp_all add: decodeBody_cases)
  have dec0: "decodeBody (\<lambda>text. None) httpBody = (None :: 'a json_map option)"
    by (simp add: decodeBody_cases)
  show ?thesis
  proof (cases "200 \<le> StatusCode resp \<and> StatusCode resp < 300")
    case True
    show ?thesis
      using True handleResponse_2xx [OF assms(1) True, of parse]
        handleResponse_2xx [OF assms(1) True, of "\<lambda>text. None :: 'a json option"]
      by (simp add: dec dec0)
  next
    case False
    show ?thesis
      using False handleResponse_non2xx [OF assms(1) False, of parse]
        handleResponse_non2xx [OF assms(1) False, of "\<lambda>text. None :: 'a json option"]
      by (auto simp add: dec dec0 errorDetails_None Unwrap_errorClassForStatus)
  qed
qed

text \<open>The theorem at the body \<^verbatim>\<open>[1, 2]\<close> with status 200 and the body \<^verbatim>\<open>null\<close> with status 502.\<close>

theorem C9_non_object_json_witness:
  \<open>handleResponse [''[1, 2]'' \<mapsto> JArray [JNumber ''1'', JNumber ''2'']]
      \<lparr>StatusCode = 200, Header = Map.empty, Body = Inr ''[1, 2]''\<rparr> =
    Inl (APIError
          \<lparr>Message = ''Invalid JSON in response body'', HTTPStatus = 200,
           HTTPBody = ''[1, 2]'', JSONBody = None, Headers = None, Code = []\<rparr>) \<and>
   (\<exists>e. handleResponse [''null'' \<mapsto> (JNull :: string json)]
           \<lparr>StatusCode = 502, Header = Map.empty, Body = Inr ''null''\<rparr> = Inl e \<and>
        JSONBody (Unwrap e) = None \<and> Message (Unwrap e) = ''null'')\<close>
  using C9_non_object_json
          [of \<open>\<lparr>StatusCode = 200, Header = Map.empty, Body = Inr ''[1, 2]''\<rparr>\<close>
              \<open>''[1, 2]''\<close> \<open>[''[1, 2]'' \<mapsto> JArray [JNumber ''1'', JNumber ''2'']]\<close>
              \<open>JArray [JNumber ''1'', JNumber ''2'']\<close>, THEN conjunct2]
        C9_non_object_json
          [of \<open>\<lparr>StatusCode = 502, Header = Map.empty, Body = Inr ''null''\<rparr>\<close>
              \<open>''null''\<close> \<open>[''null'' \<mapsto> (JNull :: string json)]\<close> \<open>JNull\<close>, THEN conjunct2]
  by simp

subsection \<open>C10: the first value of each header\<close>

text \<open>
  C10. For every response, whenever the outcome of \<open>handleResponse\<close> is an error with a
  header mapping, the mapping holds for each key of the response header the first of
  its values: a header with several values gives only its first value, and a key
  with an empty list of values, like a key that is absent, is not in the mapping.
\<close>

theorem C10_first_header_value:
  assumes "handleResponse parse resp = Inl e"
    and "Headers (Unwrap e) = Some h"
  shows "(\<forall>v vs. Header resp k = Some (v # vs) \<longrightarrow> h k = Some v) \<and>
         (Header resp k = Some [] \<longrightarrow> h k = None) \<and>
         (Header resp k = None \<longrightarrow> h k = None)"
  using handleResponse_error_headers [OF assms]
  by (simp add: responseHeaders_cases)

text \<open>
  The theorem at a response with a header of two values, a header of one value and a
  header with an empty list of values.
\<close>

theorem C10_first_header_value_witness:
  \<open>\<exists>e h. handleResponse [''{"error": "fail"}'' \<mapsto> JObject [''error'' \<mapsto> JString ''fail'']]
            \<lparr>StatusCode = 500,
             Header = [''Set-Cookie'' \<mapsto> [''a=1'', ''b=2''], ''X-Request-Id'' \<mapsto> [''req_abc''],
                       ''X-Empty'' \<mapsto> []],
             Body = Inr ''{"error": "fail"}''\<rparr> = Inl (e :: string paylio_error) \<and>
          Headers (Unwrap e) = Some h \<and>
          h ''Set-Cookie'' = Some ''a=1'' \<and> h ''X-Request-Id'' = Some ''req_abc'' \<and>
          h ''X-Empty'' = None \<and> h ''X-Absent'' = None\<close>
proof -
  let ?p = \<open>[''{"error": "fail"}'' \<mapsto> JObject [''error'' \<mapsto> (JString ''fail'' :: string json)]]\<close>
  let ?r = \<open>\<lparr>StatusCode = 500,
             Header = [''Set-Cookie'' \<mapsto> [''a=1'', ''b=2''], ''X-Request-Id'' \<mapsto> [''req_abc''],
                       ''X-Empty'' \<mapsto> []],
             Body = Inr ''{"error": "fail"}''\<rparr>\<close>
  obtain e where 1: "handleResponse ?p ?r = Inl e"
    and 2: "Headers (Unwrap e) = Some (responseHeaders (Header ?r))"
    using handleResponse_non2xx [of ?r \<open>''{"error": "fail"}''\<close> ?p]
    by (simp add: Unwrap_errorClassForStatus)
  have "responseHeaders (Header ?r) ''Set-Cookie'' = Some ''a=1''"
    and "responseHeaders (Header ?r) ''X-Request-Id'' = Some ''req_abc''"
    and "responseHeaders (Header ?r) ''X-Empty'' = None"
    and "responseHeaders (Header ?r) ''X-Absent'' = None"
    using C10_first_header_value [OF 1 2, of "''Set-Cookie''"]
      C10_first_header_value [OF 1 2, of "''X-Request-Id''"]
      C10_first_header_value [OF 1 2, of "''X-Empty''"]
      C10_first_header_value [OF 1 2, of "''X-Absent''"]
    by simp_all
  with 1 2 show ?thesis by blast
qed

end
